theory Spec2Isabelle
  imports Main "HOL-Library.Word"
begin

unbundle bit_operations_syntax

section \<open>Credentials: cmd/credential.go\<close>

subsection \<open>Data model\<close>

type_synonym byte = "8 word"

text \<open>
  A Go \<open>string\<close> is a sequence of bytes and \<open>len\<close> counts bytes: it is a \<open>string\<close>
  (\<open>char list\<close>) here. The conversions \<open>[]byte(s)\<close> and \<open>string(b)\<close> of the source are
  written out.
\<close>

definition bytes_of_string :: "string \<Rightarrow> byte list" where
  "bytes_of_string s = map (\<lambda>c. of_nat (of_char c)) s"

definition string_of_bytes :: "byte list \<Rightarrow> string" where
  "string_of_bytes bs = map (\<lambda>b. char_of (unat b)) bs"

definition accessKeyMinLen :: nat where "accessKeyMinLen = 5"
definition accessKeyMaxLen :: nat where "accessKeyMaxLen = 20"
definition secretKeyMinLen :: nat where "secretKeyMinLen = 8"
definition secretKeyMaxLenAmazon :: nat where "secretKeyMaxLenAmazon = 40"

definition alphaNumericTable :: string where
  "alphaNumericTable = ''0123456789ABCDEFGHIJKLMNOPQRSTUVWXYZ''"

definition alphaNumericTableLen :: byte where
  "alphaNumericTableLen = of_nat (length alphaNumericTable)"

text \<open>
  \<open>secretKeyMaxLen\<close> is a package variable initialised to \<open>secretKeyMaxLenAmazon\<close>;
  nothing in this file assigns it again.
\<close>

definition secretKeyMaxLen :: nat where
  "secretKeyMaxLen = secretKeyMaxLenAmazon"

text \<open>
  Go \<open>error\<close> values. The two length errors are the package's own; \<open>errExternal\<close> is an
  error handed back by a library call (\<open>crypto/rand\<close>, \<open>bcrypt\<close>), with its message.
\<close>

datatype error =
    errInvalidAccessKeyLength
  | errInvalidSecretKeyLength
  | errExternal string

text \<open>
  \<open>time.Time\<close> as a count of instants from the zero time, so that \<open>IsZero\<close> is
  equality with \<open>0\<close>.
\<close>

type_synonym Time = int

definition IsZero :: "Time \<Rightarrow> bool" where
  "IsZero t = (t = 0)"

text \<open>
  The struct. \<open>secretKeyHash\<close> is a byte slice that may be \<open>nil\<close>: \<open>None\<close> is \<open>nil\<close>.
\<close>

record credential =
  AccessKey :: string
  SecretKey :: string
  Expiry :: Time
  secretKeyHash :: "byte list option"

text \<open>The zero value \<open>credential{}\<close>.\<close>

definition credential_zero :: credential where
  "credential_zero = \<lparr>AccessKey = [], SecretKey = [], Expiry = 0, secretKeyHash = None\<rparr>"

text \<open>A \<open>nil\<close> slice read as bytes is the empty sequence.\<close>

definition slice_bytes :: "byte list option \<Rightarrow> byte list" where
  "slice_bytes s = (case s of None \<Rightarrow> [] | Some bs \<Rightarrow> bs)"

subsection \<open>The library interface\<close>

text \<open>
  The outcome of one read of the system's entropy source: the bytes delivered, or the
  error of the read.
\<close>

type_synonym rand_outcome = "error + byte list"

text \<open>
  \<open>golang.org/x/crypto/bcrypt\<close> is a library outside this repository: its two functions
  are parameters. \<open>GenerateFromPassword\<close> draws its salt from the entropy source, so it
  takes the outcome of that draw, then the password and the cost; it returns the hash or
  an error. \<open>CompareHashAndPassword\<close> returns \<open>nil\<close> (\<open>None\<close>) when the password
  matches the hash and an error otherwise.
\<close>

record bcrypt =
  GenerateFromPassword :: "rand_outcome \<Rightarrow> byte list \<Rightarrow> nat \<Rightarrow> error + byte list"
  CompareHashAndPassword :: "byte list \<Rightarrow> byte list \<Rightarrow> error option"

definition DefaultCost :: nat where "DefaultCost = 10"

subsection \<open>Validation\<close>

definition isAccessKeyValid :: "string \<Rightarrow> bool" where
  "isAccessKeyValid accessKey =
     (length accessKey \<ge> accessKeyMinLen \<and> length accessKey \<le> accessKeyMaxLen)"

definition isSecretKeyValid :: "string \<Rightarrow> bool" where
  "isSecretKeyValid secretKey =
     (length secretKey \<ge> secretKeyMinLen \<and> length secretKey \<le> secretKeyMaxLen)"

definition IsValid :: "credential \<Rightarrow> bool" where
  "IsValid cred = (isAccessKeyValid (AccessKey cred) \<and> isSecretKeyValid (SecretKey cred))"

subsection \<open>Equal\<close>

text \<open>
  The lazy hash step of \<open>Equal\<close>: when the receiver's copy has no hash, one is generated
  from its secret key and stored in the copy; a generation error is handed on.
\<close>

definition ensureHash :: "bcrypt \<Rightarrow> rand_outcome \<Rightarrow> credential \<Rightarrow> error + credential" where
  "ensureHash bc rnd cred =
     (if secretKeyHash cred = None then
        (case GenerateFromPassword bc rnd (bytes_of_string (SecretKey cred)) DefaultCost of
           Inl err \<Rightarrow> Inl err
         | Inr h \<Rightarrow> Inr (cred\<lparr>secretKeyHash := Some h\<rparr>))
      else Inr cred)"

text \<open>
  The body of \<open>Equal\<close>, run on the callee's copy \<open>cred\<close> of the receiver. It returns the
  result together with that copy as the body leaves it.
\<close>

definition Equal_body ::
  "bcrypt \<Rightarrow> rand_outcome \<Rightarrow> credential \<Rightarrow> credential \<Rightarrow> bool \<times> credential" where
  "Equal_body bc rnd cred ccred =
     (if \<not> IsValid ccred then (False, cred)
      else
        (case ensureHash bc rnd cred of
           Inl err \<Rightarrow> (False, cred)
         | Inr cred' \<Rightarrow>
             (AccessKey cred' = AccessKey ccred \<and>
              CompareHashAndPassword bc (slice_bytes (secretKeyHash cred'))
                (bytes_of_string (SecretKey ccred)) = None,
              cred')))"

text \<open>
  \<open>Equal\<close> has a value receiver and a value parameter: the body works on copies and the
  caller receives the boolean only.
\<close>

definition Equal :: "bcrypt \<Rightarrow> rand_outcome \<Rightarrow> credential \<Rightarrow> credential \<Rightarrow> bool" where
  "Equal bc rnd cred ccred = fst (Equal_body bc rnd cred ccred)"

text \<open>
  A call of \<open>Equal\<close> seen from the caller, who holds the two credentials in variables of
  its own: the arguments are copied in, the body runs on the copies, and the caller's
  variables are what they were.
\<close>

record caller_vars =
  credA :: credential
  credB :: credential

definition call_Equal :: "bcrypt \<Rightarrow> rand_outcome \<Rightarrow> caller_vars \<Rightarrow> bool \<times> caller_vars" where
  "call_Equal bc rnd vars =
     (let cred = credA vars; ccred = credB vars;
          (result, cred') = Equal_body bc rnd cred ccred
      in (result, vars))"

subsection \<open>createCredentialWithExpiry\<close>

text \<open>
  The named results \<open>cred\<close> and \<open>err\<close> start as zero values; the expiry is stored after
  the branches, whatever \<open>err\<close> is.
\<close>

definition createCredentialWithExpiry ::
  "bcrypt \<Rightarrow> rand_outcome \<Rightarrow> string \<Rightarrow> string \<Rightarrow> Time \<Rightarrow> credential \<times> error option" where
  "createCredentialWithExpiry bc rnd accessKey secretKey expiry =
     (let (cred, err) =
        (if \<not> isAccessKeyValid accessKey then
           (credential_zero, Some errInvalidAccessKeyLength)
         else if \<not> isSecretKeyValid secretKey then
           (credential_zero, Some errInvalidSecretKeyLength)
         else
           (case GenerateFromPassword bc rnd (bytes_of_string secretKey) DefaultCost of
              Inl e \<Rightarrow> (credential_zero, Some e)
            | Inr h \<Rightarrow>
                (credential_zero\<lparr>AccessKey := accessKey, SecretKey := secretKey,
                                  secretKeyHash := Some h\<rparr>, None)));
          cred' = (if \<not> IsZero expiry then cred\<lparr>Expiry := expiry\<rparr> else cred)
      in (cred', err))"

text \<open>
  \<open>timeSentinel\<close> is declared elsewhere in the package; \<open>createCredential\<close> takes it as a
  parameter.
\<close>

definition createCredential ::
  "Time \<Rightarrow> bcrypt \<Rightarrow> rand_outcome \<Rightarrow> string \<Rightarrow> string \<Rightarrow> credential \<times> error option" where
  "createCredential timeSentinel bc rnd accessKey secretKey =
     createCredentialWithExpiry bc rnd accessKey secretKey timeSentinel"

subsection \<open>An executable instance of the library interface\<close>

text \<open>
  The theorems below hold for every \<open>bcrypt\<close>. To evaluate them at concrete inputs a
  small instance is used: the hash is a 16-byte salt followed by the password, generation
  fails when the entropy read failed, and comparison checks the part after the salt.
\<close>

definition errMismatchedHashAndPassword :: error where
  "errMismatchedHashAndPassword =
     errExternal ''crypto/bcrypt: hashedPassword is not the hash of the given password''"

definition sample_bcrypt :: bcrypt where
  "sample_bcrypt =
     \<lparr>GenerateFromPassword =
        (\<lambda>rnd password cost.
           case rnd of Inl e \<Rightarrow> Inl e
           | Inr salt \<Rightarrow> Inr (take 16 (salt @ replicate 16 0) @ password)),
      CompareHashAndPassword =
        (\<lambda>hashedPassword password.
           if drop 16 hashedPassword = password then None
           else Some errMismatchedHashAndPassword)\<rparr>"

definition sample_salt :: "byte list" where
  "sample_salt = [1, 2, 3, 4, 5, 6, 7, 8, 9, 10, 11, 12, 13, 14, 15, 16]"

definition sample_salt2 :: "byte list" where
  "sample_salt2 = [201, 202, 203, 204, 205, 206, 207, 208, 209, 210, 211, 212, 213, 214, 215, 216]"

definition sample_cred :: credential where
  "sample_cred =
     \<lparr>AccessKey = ''minio'', SecretKey = ''minio123'', Expiry = 0, secretKeyHash = None\<rparr>"

subsection \<open>The specification of Equal\<close>

text \<open>
  The hash that a call of \<open>Equal\<close> compares against: the stored one when there is one,
  otherwise the one generated on this call, when the generation succeeds.
\<close>

definition hashInUse :: "bcrypt \<Rightarrow> rand_outcome \<Rightarrow> credential \<Rightarrow> byte list option" where
  "hashInUse bc rnd cred =
     (case secretKeyHash cred of
        Some h \<Rightarrow> Some h
      | None \<Rightarrow>
          (case GenerateFromPassword bc rnd (bytes_of_string (SecretKey cred)) DefaultCost of
             Inl e \<Rightarrow> None
           | Inr h \<Rightarrow> Some h))"

text \<open>
  \<open>equals\<close> as the specification words it: the candidate is valid by its lengths, the
  access keys are equal, and the candidate's secret key matches the hash in use.
\<close>

definition equals_spec :: "bcrypt \<Rightarrow> rand_outcome \<Rightarrow> credential \<Rightarrow> credential \<Rightarrow> bool" where
  "equals_spec bc rnd a b =
     ((5 \<le> length (AccessKey b) \<and> length (AccessKey b) \<le> 20 \<and>
       8 \<le> length (SecretKey b) \<and> length (SecretKey b) \<le> 40) \<and>
      AccessKey a = AccessKey b \<and>
      (case hashInUse bc rnd a of
         None \<Rightarrow> False
       | Some h \<Rightarrow> CompareHashAndPassword bc h (bytes_of_string (SecretKey b)) = None))"

text \<open>
  The contract of the library that reflexivity rests on: a hash that
  \<open>GenerateFromPassword\<close> returned for a password is accepted by
  \<open>CompareHashAndPassword\<close> for that password.
\<close>

definition accepts_own_hash :: "bcrypt \<Rightarrow> bool" where
  "accepts_own_hash bc =
     (\<forall>rnd password cost h.
        GenerateFromPassword bc rnd password cost = Inr h \<longrightarrow>
        CompareHashAndPassword bc h password = None)"

text \<open>
  A second property of the library, used where two calls of \<open>Equal\<close> generate two
  hashes of one password: whether a candidate is accepted does not depend on which of the
  two hashes it is compared against.
\<close>

definition salt_independent :: "bcrypt \<Rightarrow> bool" where
  "salt_independent bc =
     (\<forall>rnd1 rnd2 password cost h1 h2 candidate.
        GenerateFromPassword bc rnd1 password cost = Inr h1 \<and>
        GenerateFromPassword bc rnd2 password cost = Inr h2 \<longrightarrow>
        (CompareHashAndPassword bc h1 candidate = None) =
        (CompareHashAndPassword bc h2 candidate = None))"

subsection \<open>getNewCredentialWithExpiry\<close>

text \<open>
  How a call ends: \<open>Exit\<close> when \<open>fatalIf\<close> (declared elsewhere in the package) ends the
  process on an error, \<open>Panic\<close> on an index or slice bound out of range, \<open>Return\<close>
  otherwise.
\<close>

datatype 'a outcome = Exit | Panic | Return 'a

definition make_bytes :: "nat \<Rightarrow> byte list" where
  "make_bytes n = replicate n 0"

text \<open>
  \<open>rand.Read(b)\<close>: the bytes delivered by the source overwrite the buffer from its start;
  the buffer keeps its length. On an error the buffer is left as it was.
\<close>

definition rand_Read :: "rand_outcome \<Rightarrow> byte list \<Rightarrow> byte list \<times> error option" where
  "rand_Read rnd b =
     (case rnd of
        Inl e \<Rightarrow> (b, Some e)
      | Inr bs \<Rightarrow> (take (length b) bs @ drop (length bs) b, None))"

text \<open>
  The loop \<open>for i := 0; i < accessKeyMaxLen; i++\<close>. \<open>None\<close> is the panic of
  \<open>keyBytes[i]\<close> out of range.
\<close>

function accessKeyLoop :: "nat \<Rightarrow> byte list \<Rightarrow> byte list option" where
  "accessKeyLoop i keyBytes =
     (if i < accessKeyMaxLen then
        (if i < length keyBytes then
           accessKeyLoop (i + 1)
             (keyBytes[i := of_nat (of_char
                (alphaNumericTable ! unat (keyBytes ! i mod alphaNumericTableLen)))])
         else None)
      else Some keyBytes)"
  by pat_completeness auto
termination
  by (relation "measure (\<lambda>(i, keyBytes). accessKeyMaxLen - i)") auto

declare accessKeyLoop.simps [simp del]

text \<open>
  \<open>encoding/base64\<close> belongs to the Go standard library. \<open>StdEncoding.EncodeToString\<close>
  is the encoding of RFC 4648 with padding: three bytes give four characters of the
  alphabet, and a last group of one or two bytes is padded with \<open>=\<close>.
\<close>

definition encodeStd :: string where
  "encodeStd = ''ABCDEFGHIJKLMNOPQRSTUVWXYZabcdefghijklmnopqrstuvwxyz0123456789+/''"

definition StdPadding :: char where
  "StdPadding = CHR ''=''"

fun EncodeToString :: "byte list \<Rightarrow> string" where
  "EncodeToString (a # b # c # src) =
     (let val = unat a * 65536 + unat b * 256 + unat c
      in [encodeStd ! (val div 262144 mod 64), encodeStd ! (val div 4096 mod 64),
          encodeStd ! (val div 64 mod 64), encodeStd ! (val mod 64)])
     @ EncodeToString src"
| "EncodeToString [a, b] =
     (let val = unat a * 65536 + unat b * 256
      in [encodeStd ! (val div 262144 mod 64), encodeStd ! (val div 4096 mod 64),
          encodeStd ! (val div 64 mod 64), StdPadding])"
| "EncodeToString [a] =
     (let val = unat a * 65536
      in [encodeStd ! (val div 262144 mod 64), encodeStd ! (val div 4096 mod 64),
          StdPadding, StdPadding])"
| "EncodeToString [] = []"

text \<open>The slice expression \<open>b[:n]\<close>: it panics (\<open>None\<close>) when \<open>n\<close> exceeds the length.\<close>

definition slice_to :: "nat \<Rightarrow> 'a list \<Rightarrow> 'a list option" where
  "slice_to n b = (if n \<le> length b then Some (take n b) else None)"

text \<open>
  The function reads the entropy source three times: for the access key, for the secret
  key, and inside \<open>bcrypt\<close> for the salt. The three outcomes are arguments.
\<close>

definition getNewCredentialWithExpiry ::
  "bcrypt \<Rightarrow> rand_outcome \<Rightarrow> rand_outcome \<Rightarrow> rand_outcome \<Rightarrow> Time \<Rightarrow>
   (credential \<times> error option) outcome" where
  "getNewCredentialWithExpiry bc rndAccess rndSecret rndSalt expiry =
     (let (keyBytes, err) = rand_Read rndAccess (make_bytes accessKeyMaxLen)
      in if err \<noteq> None then Exit
         else
           (case accessKeyLoop 0 keyBytes of
              None \<Rightarrow> Panic
            | Some keyBytes \<Rightarrow>
                (let accessKey = string_of_bytes keyBytes;
                     (keyBytes, err) = rand_Read rndSecret (make_bytes secretKeyMaxLen)
                 in if err \<noteq> None then Return (credential_zero, err)
                    else
                      (case slice_to secretKeyMaxLen
                              (bytes_of_string (EncodeToString keyBytes)) of
                         None \<Rightarrow> Panic
                       | Some sl \<Rightarrow>
                           (let secretKey = string_of_bytes sl;
                                (cred, err) =
                                  createCredentialWithExpiry bc rndSalt accessKey secretKey expiry
                            in if err \<noteq> None then Return (credential_zero, err)
                               else Return (cred, None))))))"

definition mustGetNewCredential ::
  "Time \<Rightarrow> bcrypt \<Rightarrow> rand_outcome \<Rightarrow> rand_outcome \<Rightarrow> rand_outcome \<Rightarrow> credential outcome" where
  "mustGetNewCredential timeSentinel bc rndAccess rndSecret rndSalt =
     (case getNewCredentialWithExpiry bc rndAccess rndSecret rndSalt timeSentinel of
        Exit \<Rightarrow> Exit
      | Panic \<Rightarrow> Panic
      | Return (cred, err) \<Rightarrow> (if err \<noteq> None then Exit else Return cred))"

subsection \<open>Sample inputs\<close>

text \<open>The outcome of an entropy read that failed.\<close>

definition sample_failure :: rand_outcome where
  "sample_failure = Inl (errExternal ''entropy source unavailable'')"

definition sample_access_bytes :: "byte list" where
  "sample_access_bytes =
     [0, 35, 36, 71, 255, 10, 200, 17, 99, 128, 64, 3, 250, 181, 42, 7, 90, 143, 222, 1]"

definition sample_secret_bytes :: "byte list" where
  "sample_secret_bytes =
     [77, 97, 110, 0, 255, 16, 131, 9, 250, 3, 44, 61, 200, 18, 7, 99, 1, 2, 3, 4,
      5, 6, 7, 8, 9, 10, 11, 12, 13, 14, 15, 16, 17, 18, 19, 20, 21, 22, 23, 24]"

definition sample_generated :: credential where
  "sample_generated =
     \<lparr>AccessKey = ''0Z0Z3AKHRKS3Y167IZ61'',
      SecretKey = ''TWFuAP8Qgwn6Ayw9yBIHYwECAwQFBgcICQoLDA0O'', Expiry = 0,
      secretKeyHash =
        Some (sample_salt @ bytes_of_string ''TWFuAP8Qgwn6Ayw9yBIHYwECAwQFBgcICQoLDA0O'')\<rparr>"

text \<open>The byte that one round of the access-key loop writes in place of \<open>b\<close>.\<close>

definition alphaByte :: "byte \<Rightarrow> byte" where
  "alphaByte b = of_nat (of_char (alphaNumericTable ! unat (b mod alphaNumericTableLen)))"

section \<open>Disk-quorum validator and backend selector\<close>

text \<open>
  \<open>checkSufficientDisks\<close> and \<open>newObjectLayer\<close> are called by cmd/server-main_test.go and
  declared in files that are not part of the sources at hand. They are modelled from
  sections 3, 4.3 and 4.5 of the specification.
\<close>

text \<open>
  Modelled from the spec: the data model of section 3 (the endpoint types are missing from
  the sources). A storage endpoint has a scheme, a host (empty for a local endpoint) and a
  path; a topology is an ordered sequence of endpoints.
\<close>

datatype endpoint_scheme = LocalFilesystem | RemoteNetwork

record StorageEndpoint =
  endpointScheme :: endpoint_scheme
  endpointHost :: string
  endpointPath :: string

type_synonym Topology = "StorageEndpoint list"

text \<open>
  Modelled from the spec: the topology errors of sections 4.3 and 7 (the error values
  \<open>errXLMinDisks\<close>, \<open>errXLMaxDisks\<close> and \<open>errXLNumDisks\<close> are missing from the sources).
\<close>

datatype topology_error = InsufficientDisks | TooManyDisks | UnevenDiskCount

text \<open>
  Modelled from the spec: the three rules of section 4.3 (the validator
  \<open>checkSufficientDisks\<close> is missing from the sources), each a condition on the number of
  endpoints with the error it fails with, in the order the specification lists them.
\<close>

definition diskRules :: "((nat \<Rightarrow> bool) \<times> topology_error) list" where
  "diskRules =
     [(\<lambda>n. n < 6, InsufficientDisks),
      (\<lambda>n. n > 16, TooManyDisks),
      (\<lambda>n. n mod 2 \<noteq> 0, UnevenDiskCount)]"

text \<open>
  Modelled from the spec: "rules, evaluated in order, first failing rule wins" (section
  4.3; part of the missing validator). \<open>None\<close> is success.
\<close>

fun firstFailing :: "((nat \<Rightarrow> bool) \<times> topology_error) list \<Rightarrow> nat \<Rightarrow> topology_error option" where
  "firstFailing [] n = None"
| "firstFailing ((fails, err) # rules) n = (if fails n then Some err else firstFailing rules n)"

text \<open>
  Modelled from the spec: \<open>validateDiskSet\<close> of section 4.3, the specification's name for
  the missing \<open>checkSufficientDisks\<close>.
\<close>

definition validateDiskSet :: "Topology \<Rightarrow> topology_error option" where
  "validateDiskSet endpoints = firstFailing diskRules (length endpoints)"

text \<open>
  Modelled from the spec: the engine that was constructed, as a tagged value (section 9;
  the engine types \<open>fsObjects\<close> and \<open>xlObjects\<close> are missing from the sources), and the
  states of the selector's state machine (section 4.5).
\<close>

datatype StorageEngineHandle =
    SingleNodeFS StorageEndpoint
  | ErasureCoded Topology

datatype selector_state = Start | Ready StorageEngineHandle | Failed topology_error

text \<open>
  Modelled from the spec: the state machine of section 4.5 (the selector \<open>newObjectLayer\<close>
  is missing from the sources), with the validator it invokes as a parameter. One
  endpoint leads to \<open>Ready\<close> with the single-node engine; more than one endpoint leads
  through the validator to \<open>Failed\<close> with its error or to \<open>Ready\<close> with the
  erasure-coded engine. The specification gives no transition for an empty topology,
  which its data model excludes: the machine stays in \<open>Start\<close>.
\<close>

definition newStorageEngineWith ::
  "(Topology \<Rightarrow> topology_error option) \<Rightarrow> Topology \<Rightarrow> selector_state" where
  "newStorageEngineWith validate endpoints =
     (if length endpoints = 1 then Ready (SingleNodeFS (hd endpoints))
      else if length endpoints > 1 then
        (case validate endpoints of
           Some err \<Rightarrow> Failed err
         | None \<Rightarrow> Ready (ErasureCoded endpoints))
      else Start)"

text \<open>
  Modelled from the spec: \<open>newStorageEngine\<close> of section 4.5, the specification's name for
  the missing \<open>newObjectLayer\<close>: the state machine run with the disk-quorum validator.
\<close>

definition newStorageEngine :: "Topology \<Rightarrow> selector_state" where
  "newStorageEngine endpoints = newStorageEngineWith validateDiskSet endpoints"

text \<open>A validator that rejects every topology, to compare the selector against.\<close>

definition rejectAll :: "Topology \<Rightarrow> topology_error option" where
  "rejectAll endpoints = Some InsufficientDisks"

text \<open>Sample topologies: \<open>n\<close> local paths, as in the test.\<close>

definition sample_disks :: "nat \<Rightarrow> Topology" where
  "sample_disks n =
     map (\<lambda>i. \<lparr>endpointScheme = LocalFilesystem, endpointHost = [],
                endpointPath = ''/mnt/backend'' @ replicate i (CHR ''I'')\<rparr>) [1..<Suc n]"

section \<open>Address resolver\<close>

text \<open>
  \<open>getHostPort\<close> and \<open>getListenIPs\<close> are called by cmd/server-main_test.go and declared
  in files that are not part of the sources at hand. They are modelled from sections 3
  and 4.1 of the specification.
\<close>

text \<open>
  Modelled from the spec: the address errors of sections 4.1 and 7 and the separator of a
  "host:port" specifier (section 3); the resolver and its error values are missing from
  the sources.
\<close>

datatype address_error = EmptyPort | InvalidPort | MissingPort

definition portSeparator :: char where
  "portSeparator = CHR '':''"

text \<open>
  Modelled from the spec: "splits \<open>addr\<close> into host and port parts" (section 4.1; the
  resolver is missing from the sources). The port part is what follows the last
  separator, the host part what precedes it; \<open>None\<close> when there is no separator at all.
\<close>

definition splitHostPort :: "string \<Rightarrow> (string \<times> string) option" where
  "splitHostPort addr =
     (if portSeparator \<in> set addr then
        Some (rev (tl (dropWhile (\<lambda>c. c \<noteq> portSeparator) (rev addr))),
              rev (takeWhile (\<lambda>c. c \<noteq> portSeparator) (rev addr)))
      else None)"

text \<open>
  Modelled from the spec: "a decimal integer" (section 4.1; part of the missing
  resolver): a non-empty sequence of decimal digits.
\<close>

definition isDecimal :: "string \<Rightarrow> bool" where
  "isDecimal s = (s \<noteq> [] \<and> list_all (\<lambda>c. c \<in> set ''0123456789'') s)"

text \<open>
  Modelled from the spec: the value of a decimal port string, for "a valid non-zero
  decimal integer in range [1, 65535]" (section 3; part of the missing resolver).
\<close>

definition decimalValue :: "string \<Rightarrow> nat" where
  "decimalValue s = foldl (\<lambda>n c. 10 * n + (of_char c - 48)) 0 s"

text \<open>
  Modelled from the spec: the valid port of the data model (section 3; part of the missing
  resolver).
\<close>

definition validPort :: "string \<Rightarrow> bool" where
  "validPort port = (isDecimal port \<and> 1 \<le> decimalValue port \<and> decimalValue port \<le> 65535)"

text \<open>
  Modelled from the spec: the loopback address that the resolver falls back to (section
  4.1; part of the missing resolver).
\<close>

definition loopback :: string where
  "loopback = ''127.0.0.1''"

text \<open>
  Modelled from the spec: \<open>resolveListenAddress\<close> of section 4.1, the specification's name
  for the missing \<open>getHostPort\<close> and \<open>getListenIPs\<close>. \<open>interfaces\<close> is what the
  enumeration of the local interfaces finds besides the loopback address. No separator at
  all is \<open>MissingPort\<close>; a port part that is empty or the literal \<open>0\<close> is \<open>EmptyPort\<close>; a
  port part that is not a decimal integer is \<open>InvalidPort\<close>; an empty host resolves to
  the local interface addresses, or to the loopback address when there is none, and any
  other host to itself.
\<close>

definition resolveListenAddress ::
  "string list \<Rightarrow> string \<Rightarrow> address_error + (string list \<times> string)" where
  "resolveListenAddress interfaces addr =
     (case splitHostPort addr of
        None \<Rightarrow> Inl MissingPort
      | Some (host, port) \<Rightarrow>
          if port = [] \<or> port = ''0'' then Inl EmptyPort
          else if \<not> isDecimal port then Inl InvalidPort
          else Inr (if host = [] then (if interfaces = [] then [loopback] else interfaces)
                    else [host],
                    port))"

section \<open>Properties of the credential code\<close>

subsection \<open>Helper facts\<close>

lemma IsValid_bounds:
  "IsValid c =
     (5 \<le> length (AccessKey c) \<and> length (AccessKey c) \<le> 20 \<and>
      8 \<le> length (SecretKey c) \<and> length (SecretKey c) \<le> 40)"
  by (auto simp: IsValid_def isAccessKeyValid_def isSecretKeyValid_def accessKeyMinLen_def
      accessKeyMaxLen_def secretKeyMinLen_def secretKeyMaxLen_def secretKeyMaxLenAmazon_def)

lemma key_bounds:
  "isAccessKeyValid ak = (5 \<le> length ak \<and> length ak \<le> 20)"
  "isSecretKeyValid sk = (8 \<le> length sk \<and> length sk \<le> 40)"
  by (auto simp: isAccessKeyValid_def isSecretKeyValid_def accessKeyMinLen_def
      accessKeyMaxLen_def secretKeyMinLen_def secretKeyMaxLen_def secretKeyMaxLenAmazon_def)

lemma Equal_unfold:
  "Equal bc rnd a b =
     (IsValid b \<and> AccessKey a = AccessKey b \<and>
      (case hashInUse bc rnd a of None \<Rightarrow> False
       | Some h \<Rightarrow> CompareHashAndPassword bc h (bytes_of_string (SecretKey b)) = None))"
  by (auto simp: Equal_def Equal_body_def ensureHash_def hashInUse_def slice_bytes_def
      split: sum.splits option.splits)

lemma sample_accepts_own_hash: "accepts_own_hash sample_bcrypt"
  by (auto simp: accepts_own_hash_def sample_bcrypt_def split: sum.splits)

lemma IsValid_sample_cred: "IsValid sample_cred"
  by (simp add: IsValid_bounds sample_cred_def)

lemma create_unfold:
  "createCredentialWithExpiry bc rnd ak sk t =
     (if \<not> isAccessKeyValid ak then
        (credential_zero\<lparr>Expiry := t\<rparr>, Some errInvalidAccessKeyLength)
      else if \<not> isSecretKeyValid sk then
        (credential_zero\<lparr>Expiry := t\<rparr>, Some errInvalidSecretKeyLength)
      else
        (case GenerateFromPassword bc rnd (bytes_of_string sk) DefaultCost of
           Inl e \<Rightarrow> (credential_zero\<lparr>Expiry := t\<rparr>, Some e)
         | Inr h \<Rightarrow>
             (\<lparr>AccessKey = ak, SecretKey = sk, Expiry = t, secretKeyHash = Some h\<rparr>, None)))"
  by (auto simp: createCredentialWithExpiry_def credential_zero_def IsZero_def Let_def
      split: sum.splits)

subsection \<open>Equal against its specification\<close>

text \<open>
  C1. For all credentials \<open>a\<close> and \<open>b\<close>, \<open>Equal a b\<close> is true exactly when \<open>b\<close> is valid
  (access key of 5 to 20 bytes, secret key of 8 to 40 bytes), the access keys are equal,
  and the secret key of \<open>b\<close> is accepted against the hash of \<open>a\<close>, stored or generated on
  this call. In particular \<open>Equal\<close> is false for every \<open>b\<close> that is not valid, whatever
  its access key, and for every \<open>b\<close> with the access key of \<open>a\<close> whose secret key the
  hash of \<open>a\<close> does not accept.
\<close>

theorem Equal_iff:
  "Equal bc rnd a b = equals_spec bc rnd a b \<and>
   (\<not> (5 \<le> length (AccessKey b) \<and> length (AccessKey b) \<le> 20 \<and>
       8 \<le> length (SecretKey b) \<and> length (SecretKey b) \<le> 40) \<longrightarrow>
    \<not> Equal bc rnd a b) \<and>
   (AccessKey a = AccessKey b \<and> hashInUse bc rnd a = Some h \<and>
    CompareHashAndPassword bc h (bytes_of_string (SecretKey b)) \<noteq> None \<longrightarrow>
    \<not> Equal bc rnd a b)"
  unfolding Equal_unfold equals_spec_def IsValid_bounds by auto

theorem Equal_iff_witness:
  "(\<not> (5 \<le> length (AccessKey (sample_cred\<lparr>SecretKey := ''wrong''\<rparr>)) \<and>
       length (AccessKey (sample_cred\<lparr>SecretKey := ''wrong''\<rparr>)) \<le> 20 \<and>
       8 \<le> length (SecretKey (sample_cred\<lparr>SecretKey := ''wrong''\<rparr>)) \<and>
       length (SecretKey (sample_cred\<lparr>SecretKey := ''wrong''\<rparr>)) \<le> 40) \<and>
    \<not> Equal sample_bcrypt (Inr sample_salt) sample_cred
        (sample_cred\<lparr>SecretKey := ''wrong''\<rparr>)) \<and>
   (AccessKey sample_cred = AccessKey (sample_cred\<lparr>SecretKey := ''mypassword''\<rparr>) \<and>
    IsValid (sample_cred\<lparr>SecretKey := ''mypassword''\<rparr>) \<and>
    \<not> Equal sample_bcrypt (Inr sample_salt) sample_cred
        (sample_cred\<lparr>SecretKey := ''mypassword''\<rparr>))"
proof -
  let ?b = "sample_cred\<lparr>SecretKey := ''wrong''\<rparr>"
  let ?c = "sample_cred\<lparr>SecretKey := ''mypassword''\<rparr>"
  let ?h = "sample_salt @ bytes_of_string ''minio123''"
  have h: "\<not> (5 \<le> length (AccessKey ?b) \<and> length (AccessKey ?b) \<le> 20 \<and>
      8 \<le> length (SecretKey ?b) \<and> length (SecretKey ?b) \<le> 40)"
    by simp
  from Equal_iff [of sample_bcrypt "Inr sample_salt" sample_cred ?b] h
  have 1: "\<not> Equal sample_bcrypt (Inr sample_salt) sample_cred ?b" by blast
  have u: "hashInUse sample_bcrypt (Inr sample_salt) sample_cred = Some ?h"
    by (simp add: hashInUse_def sample_cred_def sample_bcrypt_def sample_salt_def)
  have r: "CompareHashAndPassword sample_bcrypt ?h (bytes_of_string (SecretKey ?c)) \<noteq> None"
    by (simp add: sample_bcrypt_def sample_salt_def bytes_of_string_def)
  have k: "AccessKey sample_cred = AccessKey ?c" by simp
  have v: "IsValid ?c" by (simp add: IsValid_bounds sample_cred_def)
  from Equal_iff [of sample_bcrypt "Inr sample_salt" sample_cred ?c ?h] k u r
  have 2: "\<not> Equal sample_bcrypt (Inr sample_salt) sample_cred ?c" by blast
  from h 1 k v 2 show ?thesis by blast
qed

subsection \<open>createCredentialWithExpiry\<close>

text \<open>
  C2, as the specification states it, fails where both lengths are out of bounds (the
  access-key check comes first and its error is the one returned) and where the lengths
  are in bounds but the hash generation fails (the library's error is returned).
\<close>

theorem create_length_errors_counterexample:
  "(\<not> (8 \<le> length ''short'' \<and> length ''short'' \<le> 40) \<and>
    snd (createCredentialWithExpiry sample_bcrypt (Inr sample_salt) ''abc'' ''short'' 0)
      \<noteq> Some errInvalidSecretKeyLength) \<and>
   ((5 \<le> length ''minio'' \<and> length ''minio'' \<le> 20) \<and>
    (8 \<le> length ''minio123'' \<and> length ''minio123'' \<le> 40) \<and>
    snd (createCredentialWithExpiry sample_bcrypt sample_failure ''minio'' ''minio123'' 0)
      \<noteq> None)"
  by (simp add: create_unfold key_bounds sample_bcrypt_def sample_failure_def)

text \<open>
  C2, amended. \<open>createCredentialWithExpiry\<close> succeeds exactly when the access key has 5
  to 20 bytes, the secret key has 8 to 40 bytes and the hash generation succeeds; the
  credential is then valid and holds the two keys and the generated hash. An access key
  out of bounds gives exactly \<open>errInvalidAccessKeyLength\<close>; an access key in bounds with a
  secret key out of bounds gives exactly \<open>errInvalidSecretKeyLength\<close>; with both in
  bounds, an error of the hash generation is the error returned. On every failure
  the returned credential has an empty access key, an empty secret key and no hash, and
  is not valid.
\<close>

theorem createCredentialWithExpiry_cases:
  "createCredentialWithExpiry bc rnd ak sk t = (cred, err) \<Longrightarrow>
   (err = None \<longleftrightarrow>
      (5 \<le> length ak \<and> length ak \<le> 20) \<and> (8 \<le> length sk \<and> length sk \<le> 40) \<and>
      (\<exists>h. GenerateFromPassword bc rnd (bytes_of_string sk) DefaultCost = Inr h)) \<and>
   (err = None \<longrightarrow>
      IsValid cred \<and> AccessKey cred = ak \<and> SecretKey cred = sk \<and>
      (\<exists>h. secretKeyHash cred = Some h \<and>
           GenerateFromPassword bc rnd (bytes_of_string sk) DefaultCost = Inr h)) \<and>
   (\<not> (5 \<le> length ak \<and> length ak \<le> 20) \<longrightarrow> err = Some errInvalidAccessKeyLength) \<and>
   ((5 \<le> length ak \<and> length ak \<le> 20) \<and> \<not> (8 \<le> length sk \<and> length sk \<le> 40) \<longrightarrow>
      err = Some errInvalidSecretKeyLength) \<and>
   ((5 \<le> length ak \<and> length ak \<le> 20) \<and> (8 \<le> length sk \<and> length sk \<le> 40) \<and>
    GenerateFromPassword bc rnd (bytes_of_string sk) DefaultCost = Inl e \<longrightarrow>
      err = Some e) \<and>
   (err \<noteq> None \<longrightarrow>
      AccessKey cred = [] \<and> SecretKey cred = [] \<and> secretKeyHash cred = None \<and>
      \<not> IsValid cred)"
  unfolding create_unfold
  by (auto simp: key_bounds IsValid_bounds credential_zero_def split: sum.splits if_splits)

lemma create_sample:
  "createCredentialWithExpiry sample_bcrypt (Inr sample_salt) ''minio'' ''minio123'' 0 =
     (\<lparr>AccessKey = ''minio'', SecretKey = ''minio123'', Expiry = 0,
       secretKeyHash = Some (sample_salt @ bytes_of_string ''minio123'')\<rparr>, None)"
  by (simp add: create_unfold key_bounds sample_bcrypt_def sample_salt_def)

lemma create_sample_short_access:
  "createCredentialWithExpiry sample_bcrypt (Inr sample_salt) ''abc'' ''minio123'' 0 =
     (credential_zero, Some errInvalidAccessKeyLength)"
  by (simp add: create_unfold key_bounds credential_zero_def)

lemma create_sample_short_secret:
  "createCredentialWithExpiry sample_bcrypt (Inr sample_salt) ''minio'' ''short'' 0 =
     (credential_zero, Some errInvalidSecretKeyLength)"
  by (simp add: create_unfold key_bounds credential_zero_def)

theorem createCredentialWithExpiry_cases_witness:
  "(createCredentialWithExpiry sample_bcrypt (Inr sample_salt) ''minio'' ''minio123'' 0 =
      (\<lparr>AccessKey = ''minio'', SecretKey = ''minio123'', Expiry = 0,
        secretKeyHash = Some (sample_salt @ bytes_of_string ''minio123'')\<rparr>, None) \<and>
    IsValid \<lparr>AccessKey = ''minio'', SecretKey = ''minio123'', Expiry = 0,
        secretKeyHash = Some (sample_salt @ bytes_of_string ''minio123'')\<rparr>) \<and>
   (createCredentialWithExpiry sample_bcrypt (Inr sample_salt) ''abc'' ''minio123'' 0 =
      (credential_zero, Some errInvalidAccessKeyLength) \<and>
    \<not> IsValid credential_zero) \<and>
   createCredentialWithExpiry sample_bcrypt (Inr sample_salt) ''minio'' ''short'' 0 =
      (credential_zero, Some errInvalidSecretKeyLength)"
proof -
  have "IsValid \<lparr>AccessKey = ''minio'', SecretKey = ''minio123'', Expiry = 0,
        secretKeyHash = Some (sample_salt @ bytes_of_string ''minio123'')\<rparr>"
    using createCredentialWithExpiry_cases [OF create_sample] by blast
  moreover have "\<not> IsValid credential_zero"
    using createCredentialWithExpiry_cases [OF create_sample_short_access] by blast
  ultimately show ?thesis
    using create_sample create_sample_short_access create_sample_short_secret by blast
qed

text \<open>
  The expiry is stored after the branches: a failing call with a non-zero expiry returns
  a credential that carries that expiry and nothing else.
\<close>

lemma create_failure_keeps_expiry:
  "createCredentialWithExpiry sample_bcrypt (Inr sample_salt) ''abc'' ''minio123'' 7 =
     (credential_zero\<lparr>Expiry := 7\<rparr>, Some errInvalidAccessKeyLength)"
  by (simp add: create_unfold key_bounds)

subsection \<open>Reflexivity of Equal\<close>

text \<open>
  C10, as stated, fails for a valid credential without a stored hash when the hash
  generation of the call fails: \<open>Equal\<close> then returns false.
\<close>

theorem Equal_reflexive_counterexample:
  "(5 \<le> length (AccessKey sample_cred) \<and> length (AccessKey sample_cred) \<le> 20) \<and>
   (8 \<le> length (SecretKey sample_cred) \<and> length (SecretKey sample_cred) \<le> 40) \<and>
   secretKeyHash sample_cred = None \<and>
   \<not> Equal sample_bcrypt sample_failure sample_cred sample_cred"
  by (simp add: Equal_unfold hashInUse_def sample_cred_def sample_bcrypt_def sample_failure_def)

text \<open>
  C10, amended. Let the library accept a password against a hash it generated from that
  password, and let \<open>c\<close> be valid (access key of 5 to 20 bytes, secret key of 8 to 40
  bytes). If the stored hash of \<open>c\<close> was generated from the secret key of \<open>c\<close>, as
  \<open>createCredentialWithExpiry\<close> does, then \<open>Equal c c\<close> is true. If \<open>c\<close> has no stored
  hash, then \<open>Equal c c\<close> is true exactly when the hash generation of that call succeeds.
\<close>

theorem Equal_reflexive:
  assumes "accepts_own_hash bc"
    and "5 \<le> length (AccessKey c) \<and> length (AccessKey c) \<le> 20"
    and "8 \<le> length (SecretKey c) \<and> length (SecretKey c) \<le> 40"
  shows "(secretKeyHash c = Some h \<and>
          GenerateFromPassword bc rnd0 (bytes_of_string (SecretKey c)) DefaultCost = Inr h
            \<longrightarrow> Equal bc rnd c c) \<and>
         (secretKeyHash c = None \<longrightarrow>
            Equal bc rnd c c =
              (\<exists>h'. GenerateFromPassword bc rnd (bytes_of_string (SecretKey c)) DefaultCost
                      = Inr h'))"
  using assms
  by (auto simp: Equal_unfold IsValid_bounds hashInUse_def accepts_own_hash_def
      split: sum.splits option.splits)

lemma sample_generate:
  "GenerateFromPassword sample_bcrypt (Inr sample_salt) pw DefaultCost = Inr (sample_salt @ pw)"
  by (simp add: sample_bcrypt_def sample_salt_def)

theorem Equal_reflexive_witness:
  "Equal sample_bcrypt sample_failure
     (sample_cred\<lparr>secretKeyHash := Some (sample_salt @ bytes_of_string ''minio123'')\<rparr>)
     (sample_cred\<lparr>secretKeyHash := Some (sample_salt @ bytes_of_string ''minio123'')\<rparr>) \<and>
   Equal sample_bcrypt (Inr sample_salt) sample_cred sample_cred"
proof -
  let ?h = "sample_salt @ bytes_of_string ''minio123''"
  let ?c = "sample_cred\<lparr>secretKeyHash := Some ?h\<rparr>"
  have ak: "5 \<le> length (AccessKey ?c) \<and> length (AccessKey ?c) \<le> 20"
    by (simp add: sample_cred_def)
  have sk: "8 \<le> length (SecretKey ?c) \<and> length (SecretKey ?c) \<le> 40"
    by (simp add: sample_cred_def)
  have g: "GenerateFromPassword sample_bcrypt (Inr sample_salt)
             (bytes_of_string (SecretKey ?c)) DefaultCost = Inr ?h"
    by (simp add: sample_generate sample_cred_def)
  have stored: "Equal sample_bcrypt sample_failure ?c ?c"
    using Equal_reflexive [OF sample_accepts_own_hash ak sk,
        of ?h "Inr sample_salt" sample_failure] g
    by simp
  have ak': "5 \<le> length (AccessKey sample_cred) \<and> length (AccessKey sample_cred) \<le> 20"
    by (simp add: sample_cred_def)
  have sk': "8 \<le> length (SecretKey sample_cred) \<and> length (SecretKey sample_cred) \<le> 40"
    by (simp add: sample_cred_def)
  have unset: "Equal sample_bcrypt (Inr sample_salt) sample_cred sample_cred"
    using Equal_reflexive [OF sample_accepts_own_hash ak' sk', where rnd = "Inr sample_salt"]
    by (simp add: sample_generate sample_cred_def)
  from stored unset show ?thesis by simp
qed

subsection \<open>Equal and the caller's state\<close>

lemma call_Equal_unfold:
  "call_Equal bc rnd vars = (Equal bc rnd (credA vars) (credB vars), vars)"
  by (simp add: call_Equal_def Equal_def Let_def split: prod.splits)

text \<open>
  C7, as stated, fails for a receiver without a stored hash: each call generates a hash
  of its own, so a first call whose generation succeeds returns true and a second call,
  on the same two credentials, whose generation fails returns false.
\<close>

theorem Equal_repeat_counterexample:
  "fst (call_Equal sample_bcrypt (Inr sample_salt)
          \<lparr>credA = sample_cred, credB = sample_cred\<rparr>) \<noteq>
   fst (call_Equal sample_bcrypt sample_failure
          (snd (call_Equal sample_bcrypt (Inr sample_salt)
             \<lparr>credA = sample_cred, credB = sample_cred\<rparr>)))"
  by (simp add: call_Equal_unfold Equal_unfold hashInUse_def sample_cred_def sample_bcrypt_def
      sample_failure_def IsValid_bounds sample_salt_def DefaultCost_def)

lemma sample_salt_independent: "salt_independent sample_bcrypt"
  by (auto simp: salt_independent_def sample_bcrypt_def split: sum.splits)

lemma Equal_salt_independent:
  assumes "salt_independent bc"
    and "isl (GenerateFromPassword bc rnd1 (bytes_of_string (SecretKey a)) DefaultCost) =
         isl (GenerateFromPassword bc rnd2 (bytes_of_string (SecretKey a)) DefaultCost)"
  shows "Equal bc rnd1 a b = Equal bc rnd2 a b"
proof (cases "secretKeyHash a")
  case (Some h)
  then show ?thesis by (simp add: Equal_unfold hashInUse_def)
next
  case None
  let ?g1 = "GenerateFromPassword bc rnd1 (bytes_of_string (SecretKey a)) DefaultCost"
  let ?g2 = "GenerateFromPassword bc rnd2 (bytes_of_string (SecretKey a)) DefaultCost"
  show ?thesis
  proof (cases ?g1)
    case (Inl e1)
    with assms(2) obtain e2 where "?g2 = Inl e2" by (cases ?g2) auto
    with Inl None show ?thesis by (simp add: Equal_unfold hashInUse_def)
  next
    case (Inr h1)
    with assms(2) obtain h2 where h2: "?g2 = Inr h2" by (cases ?g2) auto
    from assms(1) Inr h2
    have "(CompareHashAndPassword bc h1 (bytes_of_string (SecretKey b)) = None) =
          (CompareHashAndPassword bc h2 (bytes_of_string (SecretKey b)) = None)"
      unfolding salt_independent_def by blast
    with Inr h2 None show ?thesis by (simp add: Equal_unfold hashInUse_def)
  qed
qed

text \<open>
  C7, amended. A call of \<open>Equal\<close> leaves both credentials, as the caller holds them,
  unchanged: the body works on copies, and in its copy of the receiver only the hash can
  change. Two calls on the same credentials return the same result whenever the candidate
  is not valid or the receiver has a stored hash. When the receiver has no stored hash,
  each call generates a hash of its own: the two calls return the same result when the
  generation succeeds in both or fails in both, provided the library's verdict on a
  candidate does not depend on the salt; and a call whose generation fails returns false.
\<close>

theorem Equal_frame:
  "snd (call_Equal bc rnd vars) = vars \<and>
   fst (call_Equal bc rnd vars) = Equal bc rnd (credA vars) (credB vars) \<and>
   AccessKey (snd (Equal_body bc rnd cred ccred)) = AccessKey cred \<and>
   SecretKey (snd (Equal_body bc rnd cred ccred)) = SecretKey cred \<and>
   Expiry (snd (Equal_body bc rnd cred ccred)) = Expiry cred \<and>
   (\<not> IsValid (credB vars) \<or> secretKeyHash (credA vars) \<noteq> None \<longrightarrow>
      fst (call_Equal bc rnd2 (snd (call_Equal bc rnd1 vars))) =
      fst (call_Equal bc rnd1 vars)) \<and>
   (salt_independent bc \<and>
    isl (GenerateFromPassword bc rnd1 (bytes_of_string (SecretKey (credA vars))) DefaultCost) =
    isl (GenerateFromPassword bc rnd2 (bytes_of_string (SecretKey (credA vars))) DefaultCost)
      \<longrightarrow>
      fst (call_Equal bc rnd2 (snd (call_Equal bc rnd1 vars))) =
      fst (call_Equal bc rnd1 vars)) \<and>
   (IsValid (credB vars) \<and> secretKeyHash (credA vars) = None \<and>
    GenerateFromPassword bc rnd (bytes_of_string (SecretKey (credA vars))) DefaultCost = Inl e
      \<longrightarrow> \<not> fst (call_Equal bc rnd vars))"
proof -
  have 1: "snd (call_Equal bc rnd vars) = vars"
    and 2: "fst (call_Equal bc rnd vars) = Equal bc rnd (credA vars) (credB vars)"
    by (simp_all add: call_Equal_unfold)
  have 3: "AccessKey (snd (Equal_body bc rnd cred ccred)) = AccessKey cred \<and>
      SecretKey (snd (Equal_body bc rnd cred ccred)) = SecretKey cred \<and>
      Expiry (snd (Equal_body bc rnd cred ccred)) = Expiry cred"
    by (auto simp: Equal_body_def ensureHash_def split: sum.splits)
  have 4: "\<not> IsValid (credB vars) \<or> secretKeyHash (credA vars) \<noteq> None \<longrightarrow>
      fst (call_Equal bc rnd2 (snd (call_Equal bc rnd1 vars))) =
      fst (call_Equal bc rnd1 vars)"
    by (auto simp: call_Equal_unfold Equal_unfold hashInUse_def)
  have 5: "salt_independent bc \<and>
    isl (GenerateFromPassword bc rnd1 (bytes_of_string (SecretKey (credA vars))) DefaultCost) =
    isl (GenerateFromPassword bc rnd2 (bytes_of_string (SecretKey (credA vars))) DefaultCost)
      \<longrightarrow>
      fst (call_Equal bc rnd2 (snd (call_Equal bc rnd1 vars))) =
      fst (call_Equal bc rnd1 vars)"
    using Equal_salt_independent [of bc rnd1 "credA vars" rnd2 "credB vars"]
    by (simp add: call_Equal_unfold)
  have 6: "IsValid (credB vars) \<and> secretKeyHash (credA vars) = None \<and>
    GenerateFromPassword bc rnd (bytes_of_string (SecretKey (credA vars))) DefaultCost = Inl e
      \<longrightarrow> \<not> fst (call_Equal bc rnd vars)"
    by (simp add: call_Equal_unfold Equal_unfold hashInUse_def)
  from 1 2 3 4 5 6 show ?thesis by blast
qed

theorem Equal_frame_witness:
  "(secretKeyHash (credA \<lparr>credA = sample_generated, credB = sample_generated\<rparr>) \<noteq> None \<and>
    fst (call_Equal sample_bcrypt sample_failure
           (snd (call_Equal sample_bcrypt (Inr sample_salt)
              \<lparr>credA = sample_generated, credB = sample_generated\<rparr>))) =
    fst (call_Equal sample_bcrypt (Inr sample_salt)
           \<lparr>credA = sample_generated, credB = sample_generated\<rparr>)) \<and>
   (salt_independent sample_bcrypt \<and>
    fst (call_Equal sample_bcrypt (Inr sample_salt2)
           (snd (call_Equal sample_bcrypt (Inr sample_salt)
              \<lparr>credA = sample_cred, credB = sample_cred\<rparr>))) =
    fst (call_Equal sample_bcrypt (Inr sample_salt)
           \<lparr>credA = sample_cred, credB = sample_cred\<rparr>)) \<and>
   (IsValid (credB \<lparr>credA = sample_cred, credB = sample_cred\<rparr>) \<and>
    secretKeyHash (credA \<lparr>credA = sample_cred, credB = sample_cred\<rparr>) = None \<and>
    \<not> fst (call_Equal sample_bcrypt sample_failure
             \<lparr>credA = sample_cred, credB = sample_cred\<rparr>))"
proof -
  let ?v = "\<lparr>credA = sample_generated, credB = sample_generated\<rparr>"
  let ?w = "\<lparr>credA = sample_cred, credB = sample_cred\<rparr>"
  have h: "secretKeyHash (credA ?v) \<noteq> None"
    by (simp add: sample_generated_def)
  have v: "IsValid (credB ?w)" "secretKeyHash (credA ?w) = None"
    by (simp_all add: IsValid_sample_cred) (simp add: sample_cred_def)
  have g: "GenerateFromPassword sample_bcrypt sample_failure
             (bytes_of_string (SecretKey (credA ?w))) DefaultCost =
           Inl (errExternal ''entropy source unavailable'')"
    by (simp add: sample_bcrypt_def sample_failure_def)
  have i: "isl (GenerateFromPassword sample_bcrypt (Inr sample_salt)
             (bytes_of_string (SecretKey (credA ?w))) DefaultCost) =
           isl (GenerateFromPassword sample_bcrypt (Inr sample_salt2)
             (bytes_of_string (SecretKey (credA ?w))) DefaultCost)"
    by (simp add: sample_bcrypt_def)
  from Equal_frame [of sample_bcrypt sample_failure ?v _ _ sample_failure "Inr sample_salt"] h
  have r: "fst (call_Equal sample_bcrypt sample_failure
                  (snd (call_Equal sample_bcrypt (Inr sample_salt) ?v))) =
           fst (call_Equal sample_bcrypt (Inr sample_salt) ?v)"
    by blast
  from Equal_frame [of sample_bcrypt sample_failure ?w _ _ "Inr sample_salt2" "Inr sample_salt"]
    sample_salt_independent i
  have s: "fst (call_Equal sample_bcrypt (Inr sample_salt2)
                  (snd (call_Equal sample_bcrypt (Inr sample_salt) ?w))) =
           fst (call_Equal sample_bcrypt (Inr sample_salt) ?w)"
    by blast
  from Equal_frame [of sample_bcrypt sample_failure ?w] v g
  have "\<not> fst (call_Equal sample_bcrypt sample_failure ?w)"
    by blast
  with h r s v sample_salt_independent show ?thesis by blast
qed

subsection \<open>Generated credentials\<close>

lemma length_rand_Read: "length (fst (rand_Read rnd b)) = length b"
  by (auto simp: rand_Read_def split: sum.splits)

lemma rand_Read_cases:
  "rand_Read rnd b = (case rnd of Inl e \<Rightarrow> (b, Some e) | Inr bs \<Rightarrow> (fst (rand_Read rnd b), None))"
  by (simp add: rand_Read_def split: sum.splits)

lemma accessKeyLoop_eq:
  "length keyBytes = accessKeyMaxLen \<Longrightarrow> i \<le> accessKeyMaxLen \<Longrightarrow>
   accessKeyLoop i keyBytes = Some (take i keyBytes @ map alphaByte (drop i keyBytes))"
proof (induction i keyBytes rule: accessKeyLoop.induct)
  case (1 i keyBytes)
  show ?case
  proof (cases "i < accessKeyMaxLen")
    case True
    let ?kb = "keyBytes[i := alphaByte (keyBytes ! i)]"
    from True 1 have il: "i < length keyBytes" by simp
    have "accessKeyLoop i keyBytes = accessKeyLoop (i + 1) ?kb"
      using True il by (subst accessKeyLoop.simps) (simp add: alphaByte_def)
    also have "\<dots> = Some (take (i + 1) ?kb @ map alphaByte (drop (i + 1) ?kb))"
      using "1.IH" [OF True il] True 1 by (simp add: alphaByte_def)
    also have "take (i + 1) ?kb = take i keyBytes @ [alphaByte (keyBytes ! i)]"
      using il by (simp add: take_Suc_conv_app_nth)
    also have "drop (i + 1) ?kb = drop (i + 1) keyBytes" by simp
    finally show ?thesis
      using il by (simp add: Cons_nth_drop_Suc [symmetric])
  next
    case False
    with 1 have "i = accessKeyMaxLen" by simp
    then show ?thesis using 1 by (subst accessKeyLoop.simps) simp
  qed
qed

lemma alpha_index: "unat (b mod alphaNumericTableLen) < length alphaNumericTable"
proof -
  have "unat alphaNumericTableLen = 36"
    by (simp add: alphaNumericTableLen_def alphaNumericTable_def)
  moreover have "length alphaNumericTable = 36" by (simp add: alphaNumericTable_def)
  ultimately show ?thesis by (simp add: unat_mod)
qed

lemma char_of_byte_of_char: "char_of (unat (of_nat (of_char c) :: byte)) = c"
  by (simp add: unat_of_nat)

lemma string_of_alphaByte: "char_of (unat (alphaByte b)) \<in> set alphaNumericTable"
  unfolding alphaByte_def char_of_byte_of_char using alpha_index by simp

lemma string_of_alpha:
  "string_of_bytes (map alphaByte kb) =
     map (\<lambda>b. alphaNumericTable ! unat (b mod alphaNumericTableLen)) kb"
  by (simp add: string_of_bytes_def alphaByte_def char_of_byte_of_char)

lemma string_of_bytes_of_string: "string_of_bytes (bytes_of_string s) = s"
  by (induction s) (simp_all add: string_of_bytes_def bytes_of_string_def unat_of_nat)

lemma string_of_take_bytes: "string_of_bytes (take n (bytes_of_string s)) = take n s"
proof -
  have "take n (bytes_of_string s) = bytes_of_string (take n s)"
    by (simp add: bytes_of_string_def take_map)
  then show ?thesis by (simp add: string_of_bytes_of_string)
qed

lemma length_EncodeToString: "length (EncodeToString src) = 4 * ((length src + 2) div 3)"
proof (induction src rule: EncodeToString.induct)
  case (1 a b c src)
  have "(length src + 5) div 3 = Suc ((length src + 2) div 3)" by arith
  with 1 show ?case by (simp add: Let_def add.commute)
qed (simp_all add: Let_def)

text \<open>What \<open>getNewCredentialWithExpiry\<close> computes, branch by branch; it never panics.\<close>

lemma getNew_unfold:
  "getNewCredentialWithExpiry bc rndAccess rndSecret rndSalt expiry =
     (case rndAccess of
        Inl e \<Rightarrow> Exit
      | Inr a \<Rightarrow>
          (case rndSecret of
             Inl e \<Rightarrow> Return (credential_zero, Some e)
           | Inr s \<Rightarrow>
               (case createCredentialWithExpiry bc rndSalt
                       (string_of_bytes (map alphaByte
                          (fst (rand_Read rndAccess (make_bytes accessKeyMaxLen)))))
                       (take secretKeyMaxLen (EncodeToString
                          (fst (rand_Read rndSecret (make_bytes secretKeyMaxLen)))))
                       expiry of
                  (cred, None) \<Rightarrow> Return (cred, None)
                | (cred, Some e) \<Rightarrow> Return (credential_zero, Some e))))"
proof (cases rndAccess)
  case (Inl e)
  then show ?thesis
    by (simp add: getNewCredentialWithExpiry_def rand_Read_def)
next
  case a: (Inr a)
  then obtain kb1 where r1: "rand_Read rndAccess (make_bytes accessKeyMaxLen) = (kb1, None)"
    by (simp add: rand_Read_def)
  have l1: "length kb1 = accessKeyMaxLen"
    using length_rand_Read [of rndAccess "make_bytes accessKeyMaxLen"] r1
    by (simp add: make_bytes_def)
  have loop: "accessKeyLoop 0 kb1 = Some (map alphaByte kb1)"
    using accessKeyLoop_eq [OF l1, of 0] by simp
  show ?thesis
  proof (cases rndSecret)
    case (Inl e)
    then have r2: "rand_Read rndSecret (make_bytes secretKeyMaxLen) =
        (make_bytes secretKeyMaxLen, Some e)"
      by (simp add: rand_Read_def)
    show ?thesis
      unfolding getNewCredentialWithExpiry_def r1 r2
      by (simp add: a Inl loop)
  next
    case s: (Inr s)
    then obtain kb2 where r2: "rand_Read rndSecret (make_bytes secretKeyMaxLen) = (kb2, None)"
      by (simp add: rand_Read_def)
    have l2: "length kb2 = secretKeyMaxLen"
      using length_rand_Read [of rndSecret "make_bytes secretKeyMaxLen"] r2
      by (simp add: make_bytes_def)
    have sl: "slice_to secretKeyMaxLen (bytes_of_string (EncodeToString kb2)) =
        Some (take secretKeyMaxLen (bytes_of_string (EncodeToString kb2)))"
      using l2 by (simp add: slice_to_def bytes_of_string_def length_EncodeToString
          secretKeyMaxLen_def secretKeyMaxLenAmazon_def)
    show ?thesis
      unfolding getNewCredentialWithExpiry_def r1 r2
      by (auto simp: a s loop sl string_of_take_bytes Let_def split: prod.splits option.splits)
  qed
qed

lemma getNew_success:
  assumes "getNewCredentialWithExpiry bc rndAccess rndSecret rndSalt expiry = Return (cred, None)"
  shows "IsValid cred \<and> length (AccessKey cred) = 20 \<and>
         set (AccessKey cred) \<subseteq> set ''0123456789ABCDEFGHIJKLMNOPQRSTUVWXYZ'' \<and>
         length (SecretKey cred) = 40"
proof -
  let ?kb1 = "fst (rand_Read rndAccess (make_bytes accessKeyMaxLen))"
  let ?kb2 = "fst (rand_Read rndSecret (make_bytes secretKeyMaxLen))"
  let ?ak = "string_of_bytes (map alphaByte ?kb1)"
  let ?sk = "take secretKeyMaxLen (EncodeToString ?kb2)"
  have cr: "createCredentialWithExpiry bc rndSalt ?ak ?sk expiry = (cred, None)"
    using assms unfolding getNew_unfold
    by (auto split: sum.splits prod.splits option.splits)
  have lak: "length ?ak = 20"
    by (simp add: string_of_bytes_def length_rand_Read make_bytes_def accessKeyMaxLen_def)
  have lsk: "length ?sk = 40"
    by (simp add: length_EncodeToString length_rand_Read make_bytes_def
        secretKeyMaxLen_def secretKeyMaxLenAmazon_def)
  have sak: "set ?ak \<subseteq> set alphaNumericTable"
    using string_of_alphaByte by (auto simp: string_of_bytes_def)
  from cr have "AccessKey cred = ?ak" "SecretKey cred = ?sk"
    unfolding create_unfold by (auto split: sum.splits if_splits)
  with lak lsk sak show ?thesis
    by (simp add: IsValid_bounds alphaNumericTable_def)
qed

lemma mustGet_Return:
  "mustGetNewCredential timeSentinel bc rndAccess rndSecret rndSalt = Return cred \<Longrightarrow>
   getNewCredentialWithExpiry bc rndAccess rndSecret rndSalt timeSentinel = Return (cred, None)"
  by (auto simp: mustGetNewCredential_def split: outcome.splits prod.splits if_splits)

lemma getNew_no_Panic:
  "getNewCredentialWithExpiry bc rndAccess rndSecret rndSalt expiry \<noteq> Panic"
  unfolding getNew_unfold by (auto split: sum.splits prod.splits option.splits)

text \<open>
  C6. Every credential that \<open>getNewCredentialWithExpiry\<close> returns without an error, and
  every credential that \<open>mustGetNewCredential\<close> returns, is valid, has an access key of
  exactly 20 bytes, each a character of \<open>0123456789ABCDEFGHIJKLMNOPQRSTUVWXYZ\<close>, and a
  secret key of exactly 40 bytes. Neither function panics.
\<close>

theorem generated_credential_valid:
  "(getNewCredentialWithExpiry bc rndAccess rndSecret rndSalt expiry = Return (cred, None) \<longrightarrow>
      IsValid cred \<and> length (AccessKey cred) = 20 \<and>
      set (AccessKey cred) \<subseteq> set ''0123456789ABCDEFGHIJKLMNOPQRSTUVWXYZ'' \<and>
      length (SecretKey cred) = 40) \<and>
   (mustGetNewCredential timeSentinel bc rndAccess rndSecret rndSalt = Return cred' \<longrightarrow>
      IsValid cred' \<and> length (AccessKey cred') = 20 \<and>
      set (AccessKey cred') \<subseteq> set ''0123456789ABCDEFGHIJKLMNOPQRSTUVWXYZ'' \<and>
      length (SecretKey cred') = 40) \<and>
   getNewCredentialWithExpiry bc rndAccess rndSecret rndSalt expiry \<noteq> Panic \<and>
   mustGetNewCredential timeSentinel bc rndAccess rndSecret rndSalt \<noteq> Panic"
proof (intro conjI impI)
  assume "getNewCredentialWithExpiry bc rndAccess rndSecret rndSalt expiry = Return (cred, None)"
  from getNew_success [OF this]
  show "IsValid cred" "length (AccessKey cred) = 20"
    "set (AccessKey cred) \<subseteq> set ''0123456789ABCDEFGHIJKLMNOPQRSTUVWXYZ''"
    "length (SecretKey cred) = 40"
    by blast+
next
  assume "mustGetNewCredential timeSentinel bc rndAccess rndSecret rndSalt = Return cred'"
  from getNew_success [OF mustGet_Return [OF this]]
  show "IsValid cred'" "length (AccessKey cred') = 20"
    "set (AccessKey cred') \<subseteq> set ''0123456789ABCDEFGHIJKLMNOPQRSTUVWXYZ''"
    "length (SecretKey cred') = 40"
    by blast+
next
  show "getNewCredentialWithExpiry bc rndAccess rndSecret rndSalt expiry \<noteq> Panic"
    by (rule getNew_no_Panic)
next
  show "mustGetNewCredential timeSentinel bc rndAccess rndSecret rndSalt \<noteq> Panic"
    using getNew_no_Panic [of bc rndAccess rndSecret rndSalt timeSentinel]
    by (auto simp: mustGetNewCredential_def split: outcome.splits prod.splits)
qed

lemma enc_sample:
  "EncodeToString sample_secret_bytes =
     ''TWFuAP8Qgwn6Ayw9yBIHYwECAwQFBgcICQoLDA0ODxAREhMUFRYXGA==''"
  by (simp add: sample_secret_bytes_def encodeStd_def StdPadding_def)

lemma access_sample:
  "accessKeyLoop 0 sample_access_bytes = Some (map alphaByte sample_access_bytes)"
  using accessKeyLoop_eq [of sample_access_bytes 0]
  by (simp add: sample_access_bytes_def accessKeyMaxLen_def)

lemma access_string_sample:
  "string_of_bytes (map alphaByte sample_access_bytes) = ''0Z0Z3AKHRKS3Y167IZ61''"
  unfolding string_of_alpha
  by (simp add: sample_access_bytes_def alphaNumericTableLen_def alphaNumericTable_def unat_mod)

lemma read_access_sample:
  "rand_Read (Inr sample_access_bytes) (make_bytes accessKeyMaxLen) = (sample_access_bytes, None)"
  by (simp add: rand_Read_def make_bytes_def accessKeyMaxLen_def sample_access_bytes_def)

lemma read_secret_sample:
  "rand_Read (Inr sample_secret_bytes) (make_bytes secretKeyMaxLen) = (sample_secret_bytes, None)"
  by (simp add: rand_Read_def make_bytes_def secretKeyMaxLen_def secretKeyMaxLenAmazon_def
      sample_secret_bytes_def)

lemma slice_sample:
  "slice_to secretKeyMaxLen (bytes_of_string (EncodeToString sample_secret_bytes)) =
     Some (bytes_of_string ''TWFuAP8Qgwn6Ayw9yBIHYwECAwQFBgcICQoLDA0O'')"
  unfolding enc_sample
  by (simp add: slice_to_def secretKeyMaxLen_def secretKeyMaxLenAmazon_def bytes_of_string_def)

lemma create_generated_sample:
  "createCredentialWithExpiry sample_bcrypt (Inr sample_salt) ''0Z0Z3AKHRKS3Y167IZ61''
     ''TWFuAP8Qgwn6Ayw9yBIHYwECAwQFBgcICQoLDA0O'' 0 = (sample_generated, None)"
  by (simp add: create_unfold key_bounds sample_bcrypt_def sample_salt_def sample_generated_def)

lemma getNew_sample:
  "getNewCredentialWithExpiry sample_bcrypt (Inr sample_access_bytes)
     (Inr sample_secret_bytes) (Inr sample_salt) 0 = Return (sample_generated, None)"
  by (simp only: getNewCredentialWithExpiry_def read_access_sample read_secret_sample
      access_sample access_string_sample slice_sample string_of_bytes_of_string
      create_generated_sample Let_def prod.case option.case if_False if_True
      not_False_eq_True not_not refl simp_thms option.distinct)

lemma mustGet_sample:
  "mustGetNewCredential 0 sample_bcrypt (Inr sample_access_bytes)
     (Inr sample_secret_bytes) (Inr sample_salt) = Return sample_generated"
  by (simp add: mustGetNewCredential_def getNew_sample)

theorem generated_credential_valid_witness:
  "getNewCredentialWithExpiry sample_bcrypt (Inr sample_access_bytes)
     (Inr sample_secret_bytes) (Inr sample_salt) 0 = Return (sample_generated, None) \<and>
   mustGetNewCredential 0 sample_bcrypt (Inr sample_access_bytes)
     (Inr sample_secret_bytes) (Inr sample_salt) = Return sample_generated \<and>
   IsValid sample_generated \<and> length (AccessKey sample_generated) = 20 \<and>
   set (AccessKey sample_generated) \<subseteq> set ''0123456789ABCDEFGHIJKLMNOPQRSTUVWXYZ'' \<and>
   length (SecretKey sample_generated) = 40"
  using generated_credential_valid [of sample_bcrypt "Inr sample_access_bytes"
      "Inr sample_secret_bytes" "Inr sample_salt" 0 sample_generated 0 sample_generated]
    getNew_sample mustGet_sample
  by blast

section \<open>Properties of the disk-quorum validator and the backend selector\<close>

lemma validateDiskSet_unfold:
  "validateDiskSet endpoints =
     (if length endpoints < 6 then Some InsufficientDisks
      else if length endpoints > 16 then Some TooManyDisks
      else if length endpoints mod 2 \<noteq> 0 then Some UnevenDiskCount
      else None)"
  by (simp add: validateDiskSet_def diskRules_def)

lemma length_sample_disks: "length (sample_disks n) = n"
  by (simp add: sample_disks_def)

text \<open>
  C3. \<open>validateDiskSet\<close> applies its rules in order and the first failing rule gives the
  error: fewer than 6 endpoints fail with \<open>InsufficientDisks\<close>, otherwise more than 16
  fail with \<open>TooManyDisks\<close>, otherwise an odd number fails with \<open>UnevenDiskCount\<close>,
  otherwise it succeeds. So it succeeds on 6, 12 and 16 endpoints, and fails with exactly
  \<open>TooManyDisks\<close> on 17, \<open>InsufficientDisks\<close> on 3 and \<open>UnevenDiskCount\<close> on 11.
\<close>

theorem validateDiskSet_cases:
  "(length endpoints = 6 \<or> length endpoints = 12 \<or> length endpoints = 16 \<longrightarrow>
      validateDiskSet endpoints = None) \<and>
   (length endpoints = 17 \<longrightarrow> validateDiskSet endpoints = Some TooManyDisks) \<and>
   (length endpoints = 3 \<longrightarrow> validateDiskSet endpoints = Some InsufficientDisks) \<and>
   (length endpoints = 11 \<longrightarrow> validateDiskSet endpoints = Some UnevenDiskCount) \<and>
   (length endpoints < 6 \<longrightarrow> validateDiskSet endpoints = Some InsufficientDisks) \<and>
   (16 < length endpoints \<longrightarrow> validateDiskSet endpoints = Some TooManyDisks) \<and>
   (6 \<le> length endpoints \<and> length endpoints \<le> 16 \<and> odd (length endpoints) \<longrightarrow>
      validateDiskSet endpoints = Some UnevenDiskCount) \<and>
   (6 \<le> length endpoints \<and> length endpoints \<le> 16 \<and> even (length endpoints) \<longrightarrow>
      validateDiskSet endpoints = None)"
  unfolding validateDiskSet_unfold by (auto simp: odd_iff_mod_2_eq_one)

theorem validateDiskSet_cases_witness:
  "validateDiskSet (sample_disks 6) = None \<and>
   validateDiskSet (sample_disks 12) = None \<and>
   validateDiskSet (sample_disks 16) = None \<and>
   validateDiskSet (sample_disks 17) = Some TooManyDisks \<and>
   validateDiskSet (sample_disks 3) = Some InsufficientDisks \<and>
   validateDiskSet (sample_disks 11) = Some UnevenDiskCount"
  using validateDiskSet_cases [of "sample_disks 6"] validateDiskSet_cases [of "sample_disks 12"]
    validateDiskSet_cases [of "sample_disks 16"] validateDiskSet_cases [of "sample_disks 17"]
    validateDiskSet_cases [of "sample_disks 3"] validateDiskSet_cases [of "sample_disks 11"]
  by (simp add: length_sample_disks)

text \<open>
  C4. On a topology of exactly one endpoint \<open>newStorageEngine\<close> constructs the single-node
  filesystem-backed engine on that endpoint whatever the validator is, also one that
  rejects every topology, and although the disk-count rules reject a single endpoint. On
  a topology of 16 endpoints it constructs the erasure-coded engine on all of them.
\<close>

theorem newStorageEngine_selects:
  "(length endpoints = 1 \<longrightarrow>
      newStorageEngine endpoints = Ready (SingleNodeFS (hd endpoints)) \<and>
      newStorageEngineWith validate endpoints = Ready (SingleNodeFS (hd endpoints)) \<and>
      newStorageEngineWith rejectAll endpoints = Ready (SingleNodeFS (hd endpoints)) \<and>
      validateDiskSet endpoints = Some InsufficientDisks) \<and>
   (length endpoints = 16 \<longrightarrow> newStorageEngine endpoints = Ready (ErasureCoded endpoints))"
  by (simp add: newStorageEngine_def newStorageEngineWith_def validateDiskSet_unfold)

theorem newStorageEngine_selects_witness:
  "newStorageEngine (sample_disks 1) = Ready (SingleNodeFS (hd (sample_disks 1))) \<and>
   validateDiskSet (sample_disks 1) = Some InsufficientDisks \<and>
   newStorageEngine (sample_disks 16) = Ready (ErasureCoded (sample_disks 16))"
  using newStorageEngine_selects [of "sample_disks 1"]
    newStorageEngine_selects [of "sample_disks 16"]
  by (simp add: length_sample_disks)

section \<open>Properties of the address resolver\<close>

lemma splitHostPort_append:
  "portSeparator \<notin> set port \<Longrightarrow>
   splitHostPort (host @ portSeparator # port) = Some (host, port)"
proof -
  assume p: "portSeparator \<notin> set port"
  have r: "rev (host @ portSeparator # port) = rev port @ portSeparator # rev host"
    by simp
  have t: "takeWhile (\<lambda>c. c \<noteq> portSeparator) (rev port @ portSeparator # rev host) = rev port"
    using p by (subst takeWhile_append2) auto
  have d: "dropWhile (\<lambda>c. c \<noteq> portSeparator) (rev port @ portSeparator # rev host) =
      portSeparator # rev host"
    using p by (subst dropWhile_append2) auto
  show ?thesis
    unfolding splitHostPort_def r t d by simp
qed

lemma splitHostPort_None: "portSeparator \<notin> set addr \<Longrightarrow> splitHostPort addr = None"
  by (simp add: splitHostPort_def)

lemma isDecimal_no_separator:
  assumes "isDecimal port"
  shows "portSeparator \<notin> set port"
proof
  assume "portSeparator \<in> set port"
  moreover from assms have "\<forall>c \<in> set port. c \<in> set ''0123456789''"
    by (simp add: isDecimal_def list_all_iff)
  ultimately have "portSeparator \<in> set ''0123456789''" by blast
  then show False by (simp add: portSeparator_def)
qed

text \<open>
  C8. Every bind address whose port part, after the separator, is empty or the literal
  \<open>0\<close> fails with \<open>EmptyPort\<close>, whatever the host part; so do \<open>:0\<close> and \<open>:\<close>. Every
  address without a separator fails with \<open>MissingPort\<close>.
\<close>

theorem resolveListenAddress_empty_port:
  "(port = [] \<or> port = ''0'' \<longrightarrow>
      resolveListenAddress interfaces (host @ portSeparator # port) = Inl EmptyPort) \<and>
   resolveListenAddress interfaces '':0'' = Inl EmptyPort \<and>
   resolveListenAddress interfaces '':'' = Inl EmptyPort \<and>
   (portSeparator \<notin> set addr \<longrightarrow> resolveListenAddress interfaces addr = Inl MissingPort)"
proof -
  have e: "port = [] \<or> port = ''0'' \<Longrightarrow>
      resolveListenAddress interfaces (host @ portSeparator # port) = Inl EmptyPort"
    for host port
  proof -
    assume h: "port = [] \<or> port = ''0''"
    then have "portSeparator \<notin> set port" by (auto simp: portSeparator_def)
    from splitHostPort_append [OF this] h show ?thesis
      by (auto simp: resolveListenAddress_def)
  qed
  have "resolveListenAddress interfaces ([] @ portSeparator # ''0'') = Inl EmptyPort"
    by (rule e) simp
  moreover have "resolveListenAddress interfaces ([] @ portSeparator # []) = Inl EmptyPort"
    by (rule e) simp
  ultimately show ?thesis
    using e [of port host] by (simp add: resolveListenAddress_def splitHostPort_None portSeparator_def)
qed

theorem resolveListenAddress_empty_port_witness:
  "resolveListenAddress [''192.168.1.7''] ''localhost:0'' = Inl EmptyPort \<and>
   resolveListenAddress [''192.168.1.7''] ''localhost:'' = Inl EmptyPort \<and>
   resolveListenAddress [''192.168.1.7''] ''hostname'' = Inl MissingPort"
proof -
  have "resolveListenAddress [''192.168.1.7''] (''localhost'' @ portSeparator # ''0'') =
      Inl EmptyPort"
    using resolveListenAddress_empty_port [of "''0''" "[''192.168.1.7'']" "''localhost''"]
    by simp
  moreover have "resolveListenAddress [''192.168.1.7''] (''localhost'' @ portSeparator # []) =
      Inl EmptyPort"
    using resolveListenAddress_empty_port [of "[]" "[''192.168.1.7'']" "''localhost''"]
    by simp
  moreover have "resolveListenAddress [''192.168.1.7''] ''hostname'' = Inl MissingPort"
    using resolveListenAddress_empty_port [of _ "[''192.168.1.7'']" _ "''hostname''"]
    by (simp add: portSeparator_def)
  ultimately show ?thesis by (simp add: portSeparator_def)
qed

text \<open>
  C9. For every bind address with an empty host and a valid non-zero port (decimal, from
  1 to 65535), the resolution succeeds, the list of hosts is not empty, and the port
  returned is the port string supplied.
\<close>

theorem resolveListenAddress_empty_host:
  assumes "validPort port"
  shows "\<exists>hosts. resolveListenAddress interfaces (portSeparator # port) = Inr (hosts, port) \<and>
           hosts \<noteq> []"
proof -
  from assms have d: "isDecimal port" and v: "1 \<le> decimalValue port"
    by (simp_all add: validPort_def)
  from v have n0: "port \<noteq> ''0''" by (auto simp: decimalValue_def)
  from d have ne: "port \<noteq> []" by (simp add: isDecimal_def)
  have "splitHostPort ([] @ portSeparator # port) = Some ([], port)"
    by (rule splitHostPort_append [OF isDecimal_no_separator [OF d]])
  then show ?thesis
    using d n0 ne by (simp add: resolveListenAddress_def loopback_def)
qed

theorem resolveListenAddress_empty_host_witness:
  "validPort ''9000'' \<and>
   resolveListenAddress [''192.168.1.7''] '':9000'' = Inr ([''192.168.1.7''], ''9000'') \<and>
   resolveListenAddress [] '':9000'' = Inr ([''127.0.0.1''], ''9000'')"
proof -
  have v: "validPort ''9000''"
    by (simp add: validPort_def isDecimal_def decimalValue_def)
  from resolveListenAddress_empty_host [OF v, of "[''192.168.1.7'']"]
  have a: "\<exists>hosts. resolveListenAddress [''192.168.1.7''] '':9000'' = Inr (hosts, ''9000'')"
    by (auto simp: portSeparator_def)
  have s: "splitHostPort '':9000'' = Some ([], ''9000'')"
    using splitHostPort_append [of "''9000''" "[]"] by (simp add: portSeparator_def)
  have "resolveListenAddress [''192.168.1.7''] '':9000'' = Inr ([''192.168.1.7''], ''9000'')"
    using a by (auto simp: resolveListenAddress_def s split: if_splits)
  moreover have "resolveListenAddress [] '':9000'' = Inr ([''127.0.0.1''], ''9000'')"
    using resolveListenAddress_empty_host [OF v, of "[]"]
    by (auto simp: resolveListenAddress_def s loopback_def portSeparator_def split: if_splits)
  ultimately show ?thesis using v by simp
qed

end
